theory Spec2Isabelle
  imports Main
begin

section \<open>Values, errors and the world\<close>

text \<open>
  The Python values that travel through the registry: keyword arguments, return values,
  the entries of a context frame and the \<open>detail\<close> of an error.
\<close>

datatype pyval =
    PNone
  | PInt int
  | PStr string
  | PBytes string
  | PDict "(string \<times> pyval) list"

type_synonym kwargs = "(string \<times> pyval) list"

type_synonym frame = "(string \<times> pyval) list"

subsection \<open>The error taxonomy (\<open>ResourceError\<close> and its subclasses)\<close>

datatype error_class =
    ResourceError
  | BadRequest
  | Unauthorized
  | Forbidden
  | NotFound
  | Conflict
  | PreconditionFailed
  | InternalServerError

text \<open>
  An instance of \<open>ResourceError\<close> or of a subclass: its class and its attributes.
  \<open>realm\<close> is \<open>None\<close> where the instance has no such attribute.
\<close>

record resource_error =
  cls :: error_class
  detail :: pyval
  code :: int
  realm :: "pyval option"

text \<open>
  \<open>ResourceError.__init__(self, detail, code)\<close>: sets \<open>detail\<close> and \<open>code\<close> on the
  instance, whose class is the first argument here.
\<close>

definition ResourceError_init :: "error_class \<Rightarrow> pyval \<Rightarrow> int \<Rightarrow> resource_error" where
  "ResourceError_init c d n = \<lparr>cls = c, detail = d, code = n, realm = None\<rparr>"

text \<open>
  The subclasses: each \<open>__init__(self, detail=None)\<close> calls
  \<open>super().__init__(detail, <code>)\<close>; \<open>Unauthorized.__init__(self, realm, detail=None)\<close>
  then sets \<open>realm\<close>. An omitted \<open>detail\<close> is \<open>PNone\<close>.
\<close>

definition BadRequest_init :: "pyval \<Rightarrow> resource_error" where
  "BadRequest_init d = ResourceError_init BadRequest d 400"

definition Unauthorized_init :: "pyval \<Rightarrow> pyval \<Rightarrow> resource_error" where
  "Unauthorized_init rlm d = (ResourceError_init Unauthorized d 401)\<lparr>realm := Some rlm\<rparr>"

definition Forbidden_init :: "pyval \<Rightarrow> resource_error" where
  "Forbidden_init d = ResourceError_init Forbidden d 403"

definition NotFound_init :: "pyval \<Rightarrow> resource_error" where
  "NotFound_init d = ResourceError_init NotFound d 404"

definition Conflict_init :: "pyval \<Rightarrow> resource_error" where
  "Conflict_init d = ResourceError_init Conflict d 412"

definition PreconditionFailed_init :: "pyval \<Rightarrow> resource_error" where
  "PreconditionFailed_init d = ResourceError_init PreconditionFailed d 412"

definition InternalServerError_init :: "pyval \<Rightarrow> resource_error" where
  "InternalServerError_init d = ResourceError_init InternalServerError d 500"

text \<open>What a \<open>raise\<close> can carry: a resource error, or one of Python's own exceptions.\<close>

datatype exn =
    Resource_exn resource_error
  | TypeError string
  | Other_exn string

text \<open>
  The text of the \<open>TypeError\<close> for a call of \<open>__init__\<close> without \<open>code\<close>, with the
  parameter's name in single quotes (Python 3.10 and later put the class name before
  \<open>__init__\<close>).
\<close>

definition missing_code_message :: string where
  "missing_code_message =
     ''__init__() missing 1 required positional argument: '' @ [CHR 0x27] @ ''code'' @ [CHR 0x27]"

text \<open>
  The expression \<open>ResourceError(detail)\<close> or \<open>ResourceError(detail, code)\<close> written at a
  call site, as the exception a \<open>raise\<close> of it produces. \<open>__init__\<close> has two required
  positional parameters and no default for \<open>code\<close>, so the one-argument form does not
  construct an instance: Python raises \<open>TypeError\<close> while evaluating the expression.
\<close>

fun raise_ResourceError :: "pyval \<Rightarrow> int option \<Rightarrow> exn" where
  "raise_ResourceError d (Some n) = Resource_exn (ResourceError_init ResourceError d n)"
| "raise_ResourceError d None = TypeError missing_code_message"

subsection \<open>The world: the shared context stack and everything else\<close>

record 'u world =
  stack :: "frame list"
  user :: 'u

text \<open>
  A callable: positional arguments, keyword arguments and the world in; a returned value
  or a raised exception, and the world after, out. A bound method has its instance
  already applied.
\<close>

type_synonym 'u fn = "pyval list \<Rightarrow> kwargs \<Rightarrow> 'u world \<Rightarrow> (exn + pyval) \<times> 'u world"

section \<open>Context propagation\<close>

text \<open>
  Modelled from the spec: \<open>roax.context\<close> (imported by \<open>resource.py\<close>, its file is not
  among the sources). The spec gives one shared stack of frames: \<open>push(frame)\<close> adds a
  frame to the top, \<open>pop()\<close> removes the most recently pushed frame, and a frame
  acquired for a scope is released once on every exit path of that scope, normal return
  or error. The head of the list is the top of the stack. The spec does not say what
  \<open>pop\<close> does on an empty stack; here it leaves the stack empty.
\<close>

definition push :: "frame \<Rightarrow> 'u world \<Rightarrow> 'u world" where
  "push fr w = w\<lparr>stack := fr # stack w\<rparr>"

definition pop :: "'u world \<Rightarrow> 'u world" where
  "pop w = w\<lparr>stack := tl (stack w)\<rparr>"

text \<open>
  Modelled from the spec: the statement \<open>with context(frame): body\<close>. The frame is pushed,
  the body runs, and the frame is popped whether the body returned or raised; the body's
  outcome passes through.
\<close>

definition with_context ::
  "frame \<Rightarrow> ('u world \<Rightarrow> (exn + pyval) \<times> 'u world) \<Rightarrow> 'u world \<Rightarrow> (exn + pyval) \<times> 'u world" where
  "with_context fr body w = (case body (push fr w) of (r, w') \<Rightarrow> (r, pop w'))"

section \<open>Validation\<close>

text \<open>
  The validation collaborator is a parameter: given a schema, a value and the world it
  runs in (it is Python code, so it can read the context stack), it returns the value,
  possibly normalised, or the text of a validation error.
\<close>

type_synonym ('s, 'a, 'u) validator = "'s \<Rightarrow> 'a \<Rightarrow> 'u world \<Rightarrow> string + 'a"

text \<open>
  Modelled from the spec: the validation that \<open>roax.schema.validate(params, returns)\<close>
  (its file is not among the sources) composes around a function. The spec: incoming
  keyword arguments are validated against \<open>params\<close> before invocation and the return
  value against \<open>returns\<close> after invocation; the collaborator returns a (possibly
  normalised) value or fails with a validation error convertible to BadRequest; given
  \<open>None\<close> as schema it performs no validation and rejects any supplied value or params
  as an error; a rejected invocation fails with a 400-coded error and the underlying
  function is never invoked.
\<close>

definition validate_params ::
  "('s, kwargs, 'u) validator \<Rightarrow> 's option \<Rightarrow> kwargs \<Rightarrow> 'u world \<Rightarrow> exn + kwargs" where
  "validate_params vp ps kw w =
     (case ps of
        None \<Rightarrow>
          (if kw = [] then Inr kw
           else Inl (Resource_exn (BadRequest_init (PStr ''no parameters are declared''))))
      | Some sch \<Rightarrow>
          (case vp sch kw w of
             Inl msg \<Rightarrow> Inl (Resource_exn (BadRequest_init (PStr msg)))
           | Inr kw' \<Rightarrow> Inr kw'))"

definition validate_returns ::
  "('s, pyval, 'u) validator \<Rightarrow> 's option \<Rightarrow> pyval \<Rightarrow> 'u world \<Rightarrow> exn + pyval" where
  "validate_returns vr rt v w =
     (case rt of
        None \<Rightarrow>
          (if v = PNone then Inr v
           else Inl (Resource_exn (BadRequest_init (PStr ''no return value is declared''))))
      | Some sch \<Rightarrow>
          (case vr sch v w of
             Inl msg \<Rightarrow> Inl (Resource_exn (BadRequest_init (PStr msg)))
           | Inr v' \<Rightarrow> Inr v'))"

definition s_validate ::
  "('s, kwargs, 'u) validator \<Rightarrow> ('s, pyval, 'u) validator \<Rightarrow> 's option \<Rightarrow> 's option
     \<Rightarrow> 'u fn \<Rightarrow> 'u fn" where
  "s_validate vp vr ps rt inner args kw w =
     (case validate_params vp ps kw w of
        Inl e \<Rightarrow> (Inl e, w)
      | Inr kw' \<Rightarrow>
          (case inner args kw' w of
             (Inl e, w') \<Rightarrow> (Inl e, w')
           | (Inr v, w') \<Rightarrow> (validate_returns vr rt v w', w')))"

section \<open>The registry\<close>

text \<open>
  \<open>_Method\<close>, the named tuple \<open>(function, kind, name, params, returns, security)\<close>.
  \<open>func\<close> is its \<open>function\<close> field, \<open>None\<close> in the template the decorator leaves on an
  unbound function. Schemas and security policies are opaque to the registry; they are the
  type parameters \<open>'s\<close> and \<open>'p\<close>.
\<close>

record ('s, 'p, 'u) Method =
  func :: "'u fn option"
  kind :: string
  name :: "string option"
  params :: "'s option"
  returns :: "'s option"
  security :: "'p option"

text \<open>A \<open>Resource\<close> instance: its \<open>methods\<close> dict, keyed by \<open>(kind, name)\<close>.\<close>

record ('s, 'p, 'u) Resource =
  methods :: "string \<times> string option \<rightharpoonup> ('s, 'p, 'u) Method"

text \<open>
  \<open>"method already registered: {}".format((kind, name))\<close>: the tuple's \<open>repr\<close>, with the
  strings in single quotes (the escapes \<open>repr\<close> adds inside a string are left out).
\<close>

definition repr_str :: "string \<Rightarrow> string" where
  "repr_str s = [CHR 0x27] @ s @ [CHR 0x27]"

definition format_key :: "string \<Rightarrow> string option \<Rightarrow> string" where
  "format_key knd nm =
     ''('' @ repr_str knd @ '', '' @ (case nm of None \<Rightarrow> ''None'' | Some n \<Rightarrow> repr_str n) @ '')''"

text \<open>
  \<open>Resource._register_method\<close>. \<open>self.methods.get((kind, name))\<close> is truthy exactly when
  the key is present, a stored \<open>_Method\<close> being a non-empty tuple. The \<open>raise\<close> writes
  \<open>ResourceError(<message>)\<close>, with one argument.
\<close>

definition register_method ::
  "('s, 'p, 'u) Resource \<Rightarrow> 'u fn \<Rightarrow> string \<Rightarrow> string option \<Rightarrow> 's option \<Rightarrow> 's option
     \<Rightarrow> 'p option \<Rightarrow> exn + ('s, 'p, 'u) Resource" where
  "register_method self f knd nm ps rt sec =
     (if methods self (knd, nm) \<noteq> None
      then Inl (raise_ResourceError
                  (PStr (''method already registered: '' @ format_key knd nm)) None)
      else Inr (self\<lparr>methods := (methods self)((knd, nm) \<mapsto>
                  \<lparr>func = Some f, kind = knd, name = nm, params = ps, returns = rt,
                   security = sec\<rparr>)\<rparr>))"

text \<open>
  What \<open>getattr(self, name) for name in dir(self)\<close> yields, in that order: an attribute
  that is not callable, or a callable together with its \<open>roax_method\<close> attribute
  (\<open>None\<close> where reading it raises).
\<close>

datatype ('s, 'p, 'u) attr =
    Noncallable
  | Callable "'u fn" "('s, 'p, 'u) Method option"

text \<open>The loop of \<open>Resource.__init__\<close>: undecorated callables are skipped.\<close>

fun register_attrs ::
  "('s, 'p, 'u) attr list \<Rightarrow> ('s, 'p, 'u) Resource \<Rightarrow> exn + ('s, 'p, 'u) Resource" where
  "register_attrs [] self = Inr self"
| "register_attrs (Noncallable # rest) self = register_attrs rest self"
| "register_attrs (Callable f None # rest) self = register_attrs rest self"
| "register_attrs (Callable f (Some m) # rest) self =
     (case register_method self f (kind m) (name m) (params m) (returns m) (security m) of
        Inl e \<Rightarrow> Inl e
      | Inr self' \<Rightarrow> register_attrs rest self')"

text \<open>\<open>Resource.__init__\<close>: \<open>self.methods = {}\<close>, then the loop.\<close>

definition Resource_init :: "('s, 'p, 'u) attr list \<Rightarrow> exn + ('s, 'p, 'u) Resource" where
  "Resource_init attrs = register_attrs attrs \<lparr>methods = Map.empty\<rparr>"

text \<open>
  \<open>Resource.call(self, kind, name=None, params={})\<close>. Only the lookup stands inside the
  \<open>try\<close>; the call of the stored function does not.
\<close>

definition call ::
  "('s, 'p, 'u) Resource \<Rightarrow> string \<Rightarrow> string option \<Rightarrow> kwargs \<Rightarrow> 'u world
     \<Rightarrow> (exn + pyval) \<times> 'u world" where
  "call self knd nm ps w =
     (case methods self (knd, nm) of
        None \<Rightarrow>
          (Inl (raise_ResourceError (PStr ''resource does not provide method'') (Some 400)), w)
      | Some m \<Rightarrow>
          (case func m of
             None \<Rightarrow> (Inl (TypeError ''NoneType object is not callable''), w)
           | Some f \<Rightarrow> f [] ps w))"


section \<open>The decorator\<close>

text \<open>Python's \<open>s.split(sep, 1)\<close> for a one-character separator.\<close>

definition split_once :: "char \<Rightarrow> string \<Rightarrow> string list" where
  "split_once sep s =
     (case dropWhile (\<lambda>c. c \<noteq> sep) s of
        [] \<Rightarrow> [s]
      | _ # rest \<Rightarrow> [takeWhile (\<lambda>c. c \<noteq> sep) s, rest])"

text \<open>
  The first lines of \<open>decorator\<close>: the resolved \<open>(_kind, _name)\<close> from the explicit
  arguments and the function's \<open>__name__\<close>. \<open>_kind\<close> is tested with \<open>is None\<close>;
  \<open>_name or split[1]\<close> takes \<open>split[1]\<close> when \<open>_name\<close> is \<open>None\<close> or the empty string.
\<close>

definition derive :: "string option \<Rightarrow> string option \<Rightarrow> string \<Rightarrow> string \<times> string option" where
  "derive knd nm fname =
     (let split = split_once CHR ''_'' fname;
          k = (case knd of None \<Rightarrow> split ! 0 | Some k' \<Rightarrow> k');
          n = (if length split > 1
               then (case nm of
                       None \<Rightarrow> Some (split ! 1)
                     | Some n' \<Rightarrow> if n' = [] then Some (split ! 1) else Some n')
               else nm)
      in (k, n))"

text \<open>The frame \<open>{"type": "method", "kind": _kind, "name": _name}\<close>.\<close>

definition method_frame :: "string \<Rightarrow> string option \<Rightarrow> frame" where
  "method_frame k n =
     [(''type'', PStr ''method''), (''kind'', PStr k),
      (''name'', (case n of None \<Rightarrow> PNone | Some s \<Rightarrow> PStr s))]"

text \<open>
  \<open>wrapt.decorator(wrapper)(function)\<close>: calling it runs \<open>wrapper\<close>, whose body is the
  \<open>with\<close> block around \<open>wrapped(*args, **kwargs)\<close>. The call of the security module in
  that block is commented out in the source, as is the module's import.
\<close>

definition wrapper :: "string \<Rightarrow> string option \<Rightarrow> 'u fn \<Rightarrow> 'u fn" where
  "wrapper k n wrapped args kw = with_context (method_frame k n) (wrapped args kw)"

text \<open>\<open>decorated = s.validate(params, returns)(wrapt.decorator(wrapper)(function))\<close>.\<close>

definition decorated ::
  "('s, kwargs, 'u) validator \<Rightarrow> ('s, pyval, 'u) validator \<Rightarrow> string \<Rightarrow> string option
     \<Rightarrow> 's option \<Rightarrow> 's option \<Rightarrow> 'u fn \<Rightarrow> 'u fn" where
  "decorated vp vr k n ps rt f = s_validate vp vr ps rt (wrapper k n f)"

text \<open>
  A function handed to the decorator: a plain function (its \<open>__name__\<close> and behaviour),
  or a method bound to a resource instance (\<open>__self__\<close>).
\<close>

datatype ('s, 'p, 'u) pyfunction =
    Function string "'u fn"
  | Bound_method string "'u fn" "('s, 'p, 'u) Resource"

text \<open>
  What declaring leaves behind: the instance with its extended registry (bound function),
  or the \<open>roax_method\<close> template set on the function (unbound).
\<close>

datatype ('s, 'p, 'u) declared =
    Registered "('s, 'p, 'u) Resource"
  | Tagged "('s, 'p, 'u) Method"

text \<open>
  \<open>method(kind, name, params, returns, security)(function)\<close>: the decorated function and
  what it declared. An error of \<open>_register_method\<close> is not an \<open>AttributeError\<close> and
  leaves the decorator.
\<close>

definition method_decorator ::
  "('s, kwargs, 'u) validator \<Rightarrow> ('s, pyval, 'u) validator \<Rightarrow> string option \<Rightarrow> string option
     \<Rightarrow> 's option \<Rightarrow> 's option \<Rightarrow> 'p option \<Rightarrow> ('s, 'p, 'u) pyfunction
     \<Rightarrow> exn + ('u fn \<times> ('s, 'p, 'u) declared)" where
  "method_decorator vp vr knd nm ps rt sec function =
     (case function of
        Function fname f \<Rightarrow>
          (case derive knd nm fname of (k, n) \<Rightarrow>
             Inr (decorated vp vr k n ps rt f,
                  Tagged \<lparr>func = None, kind = k, name = n, params = ps, returns = rt,
                          security = sec\<rparr>))
      | Bound_method fname f self \<Rightarrow>
          (case derive knd nm fname of (k, n) \<Rightarrow>
             (case register_method self (decorated vp vr k n ps rt f) k n ps rt sec of
                Inl e \<Rightarrow> Inl e
              | Inr self' \<Rightarrow> Inr (decorated vp vr k n ps rt f, Registered self'))))"

section \<open>Specification vocabulary\<close>

text \<open>Every key of the registry is the \<open>(kind, name)\<close> of the record stored under it.\<close>

definition registry_consistent :: "('s, 'p, 'u) Resource \<Rightarrow> bool" where
  "registry_consistent self =
     (\<forall>k n m. methods self (k, n) = Some m \<longrightarrow> kind m = k \<and> name m = n)"

text \<open>
  The wrapper as the spec words it (section 4.2, step 2), for comparison with \<open>wrapper\<close>:
  push the frame, apply the security hook if a policy was declared, invoke the original
  function, pop the frame on every exit. The security collaborator, given the policy and
  the world, permits the call (\<open>None\<close>) or fails with an error.
\<close>

definition wrapper_as_specified ::
  "('p \<Rightarrow> 'u world \<Rightarrow> resource_error option) \<Rightarrow> 'p option \<Rightarrow> string \<Rightarrow> string option
     \<Rightarrow> 'u fn \<Rightarrow> 'u fn" where
  "wrapper_as_specified apply_security sec k n wrapped args kw =
     with_context (method_frame k n)
       (\<lambda>w. case sec of
               None \<Rightarrow> wrapped args kw w
             | Some policy \<Rightarrow>
                 (case apply_security policy w of
                    Some e \<Rightarrow> (Inl (Resource_exn e), w)
                  | None \<Rightarrow> wrapped args kw w))"

text \<open>
  What a class body \<open>@method(...) def fname(self, ...)\<close> leaves for \<open>__init__\<close> to find:
  the decorated function, through which the \<open>roax_method\<close> template set on the original
  function is read.
\<close>

definition class_attr ::
  "('s, kwargs, 'u) validator \<Rightarrow> ('s, pyval, 'u) validator \<Rightarrow> string option \<Rightarrow> string option
     \<Rightarrow> 's option \<Rightarrow> 's option \<Rightarrow> 'p option \<Rightarrow> string \<Rightarrow> 'u fn \<Rightarrow> ('s, 'p, 'u) attr" where
  "class_attr vp vr knd nm ps rt sec fname f =
     (case method_decorator vp vr knd nm ps rt sec (Function fname f) of
        Inr (d, Tagged m) \<Rightarrow> Callable d (Some m)
      | _ \<Rightarrow> Noncallable)"


subsection \<open>Sample collaborators, functions and worlds\<close>

definition accept :: "(unit, 'a, unit) validator" where
  "accept sch v w = Inr v"

definition reject :: "(unit, 'a, unit) validator" where
  "reject sch v w = Inl ''rejected''"

text \<open>A validator that accepts exactly when some frame is on the context stack.\<close>

definition needs_frame :: "(unit, 'a, unit) validator" where
  "needs_frame sch v w =
     (case stack w of [] \<Rightarrow> Inl ''no frame on the stack'' | fr # _ \<Rightarrow> Inr v)"

definition done_fn :: "unit fn" where
  "done_fn args kw w = (Inr (PStr ''done''), w)"

text \<open>A function that returns the \<open>kind\<close> of the top frame, and raises where there is none.\<close>

definition kind_reader :: "unit fn" where
  "kind_reader args kw w =
     (case stack w of
        [] \<Rightarrow> (Inl (Other_exn ''no frame on the stack''), w)
      | fr # _ \<Rightarrow>
          (case map_of fr ''kind'' of
             None \<Rightarrow> (Inl (Other_exn ''no kind in the frame''), w)
           | Some v \<Rightarrow> (Inr v, w)))"

definition failing_fn :: "unit fn" where
  "failing_fn args kw w = (Inl (Resource_exn (NotFound_init (PStr ''no such item''))), w)"

definition w0 :: "unit world" where
  "w0 = \<lparr>stack = [], user = ()\<rparr>"

text \<open>A security collaborator that refuses every call.\<close>

definition deny :: "string \<Rightarrow> unit world \<Rightarrow> resource_error option" where
  "deny policy w = Some (Forbidden_init (PStr policy))"

definition sample_resource :: "(unit, unit, unit) Resource" where
  "sample_resource =
     \<lparr>methods = [(''create'', None) \<mapsto>
        \<lparr>func = Some done_fn, kind = ''create'', name = None, params = None,
         returns = None, security = None\<rparr>]\<rparr>"

section \<open>Auxiliary facts\<close>

subsection \<open>Splitting and derivation\<close>

lemma split_once_no_sep: "sep \<notin> set s \<Longrightarrow> split_once sep s = [s]"
proof -
  assume "sep \<notin> set s"
  then have h: "dropWhile (\<lambda>c. c \<noteq> sep) s = []" by auto
  show ?thesis unfolding split_once_def h by simp
qed

lemma split_once_length: "length (split_once sep s) = (if sep \<in> set s then 2 else 1)"
proof (cases "sep \<in> set s")
  case True
  then have "dropWhile (\<lambda>c. c \<noteq> sep) s \<noteq> []" by auto
  then show ?thesis using True by (auto simp: split_once_def split: list.splits)
next
  case False
  then show ?thesis by (simp add: split_once_no_sep)
qed








subsection \<open>Registration\<close>

lemma register_method_Inr:
  "register_method self f k n ps rt sec = Inr self' \<Longrightarrow>
     methods self (k, n) = None
     \<and> methods self' = (methods self)((k, n) \<mapsto>
          \<lparr>func = Some f, kind = k, name = n, params = ps, returns = rt, security = sec\<rparr>)"
  by (auto simp: register_method_def split: if_splits)

lemma register_method_duplicate:
  "methods self (k, n) = Some m \<Longrightarrow>
     register_method self f k n ps rt sec = Inl (TypeError missing_code_message)"
  by (simp add: register_method_def)

lemma register_method_consistent:
  "registry_consistent self \<Longrightarrow> register_method self f k n ps rt sec = Inr self' \<Longrightarrow>
     registry_consistent self'"
  by (drule register_method_Inr) (auto simp: registry_consistent_def)

lemma register_attrs_consistent:
  "registry_consistent self \<Longrightarrow> register_attrs attrs self = Inr r \<Longrightarrow> registry_consistent r"
proof (induction attrs self rule: register_attrs.induct)
  case (4 f m rest self)
  then show ?case
    by (auto split: sum.splits dest: register_method_consistent)
qed simp_all



lemma Resource_init_consistent: "Resource_init attrs = Inr r \<Longrightarrow> registry_consistent r"
proof -
  assume a: "Resource_init attrs = Inr r"
  have e: "registry_consistent (\<lparr>methods = Map.empty\<rparr> :: ('a, 'b, 'c) Resource)"
    by (simp add: registry_consistent_def)
  from a register_attrs_consistent [OF e] show ?thesis
    by (simp add: Resource_init_def)
qed

lemma register_method_callable:
  "register_method self f k n ps rt sec = Inr self' \<Longrightarrow> methods self' key = Some m \<Longrightarrow>
     func m = None \<Longrightarrow> methods self key = Some m"
  by (drule register_method_Inr) (auto split: if_splits)

lemma register_attrs_callable:
  "register_attrs attrs self = Inr r \<Longrightarrow> methods r key = Some m \<Longrightarrow> func m = None \<Longrightarrow>
     \<exists>m'. methods self key = Some m' \<and> func m' = None"
proof (induction attrs self rule: register_attrs.induct)
  case (4 f m' rest self)
  from "4.prems"(1) obtain self' where
    reg: "register_method self f (kind m') (name m') (params m') (returns m') (security m') = Inr self'"
    and rest: "register_attrs rest self' = Inr r"
    by (auto split: sum.splits)
  from "4.IH" [OF reg rest "4.prems"(2,3)] obtain m'' where
    "methods self' key = Some m''" "func m'' = None" by blast
  with register_method_callable [OF reg] show ?case by blast
qed auto

lemma Resource_init_callable:
  "Resource_init attrs = Inr r \<Longrightarrow> methods r key = Some m \<Longrightarrow> \<exists>f. func m = Some f"
proof (cases "func m")
  case None
  assume "Resource_init attrs = Inr r" "methods r key = Some m"
  with None register_attrs_callable [of attrs "\<lparr>methods = Map.empty\<rparr>" r key m]
  show ?thesis by (simp add: Resource_init_def)
qed simp



subsection \<open>The wrapper and the validation around it\<close>

lemma wrapper_unfold:
  "wrapper k n f args kw w =
     (fst (f args kw (push (method_frame k n) w)), pop (snd (f args kw (push (method_frame k n) w))))"
  by (simp add: wrapper_def with_context_def split: prod.splits)



section \<open>Registration and dispatch\<close>

text \<open>
  Claim C1. For every resource, registering two operations that resolve to the same
  \<open>(kind, name)\<close> fails during construction with a duplicate-registration
  \<open>ResourceError\<close>, at registry-build time and not at the first call.

  Construction does stop at the second registration. What leaves it is not a
  \<open>ResourceError\<close>: the \<open>raise\<close> in \<open>_register_method\<close> calls \<open>ResourceError\<close> with the
  message alone, and \<open>ResourceError.__init__\<close> requires \<open>code\<close> as well, so building the
  exception raises \<open>TypeError\<close>. Below, a class body declares \<open>a\<close> and \<open>b\<close>, both with
  \<open>kind="create"\<close> and no name.
\<close>

theorem duplicate_registration_raises_TypeError:
  "Resource_init
     [class_attr accept accept (Some ''create'') None None None (None :: unit option) ''a'' done_fn,
      class_attr accept accept (Some ''create'') None None None None ''b'' done_fn]
   = Inl (TypeError missing_code_message)"
  by (simp add: Resource_init_def class_attr_def method_decorator_def derive_def
      split_once_def register_method_def)

text \<open>
  Claim C2. For every resource and every \<open>(kind, name)\<close> not in its registry, \<open>call\<close>
  raises a \<open>ResourceError\<close> whose code is 400, and the world is untouched; for every
  registered \<open>(kind, name)\<close>, \<open>call\<close> is the stored function applied to \<open>params\<close> as
  keyword arguments: its result, or whatever it raises, unchanged. A registry built by
  \<open>__init__\<close> stores a function under every key.
\<close>

theorem call_dispatch:
  "(methods self (knd, nm) = None \<longrightarrow>
      (\<exists>e. call self knd nm kw w = (Inl (Resource_exn e), w) \<and> code e = 400
           \<and> cls e = ResourceError))
   \<and> (\<forall>m f. methods self (knd, nm) = Some m \<and> func m = Some f \<longrightarrow>
         call self knd nm kw w = f [] kw w)
   \<and> (\<forall>m. Resource_init attrs = Inr self \<and> methods self (knd, nm) = Some m \<longrightarrow>
         (\<exists>f. func m = Some f \<and> call self knd nm kw w = f [] kw w))"
proof -
  have miss: "methods self (knd, nm) = None \<longrightarrow>
      (\<exists>e. call self knd nm kw w = (Inl (Resource_exn e), w) \<and> code e = 400
           \<and> cls e = ResourceError)"
    by (simp add: call_def ResourceError_init_def)
  have hit: "\<forall>m f. methods self (knd, nm) = Some m \<and> func m = Some f \<longrightarrow>
         call self knd nm kw w = f [] kw w"
    by (simp add: call_def)
  have built: "\<forall>m. Resource_init attrs = Inr self \<and> methods self (knd, nm) = Some m \<longrightarrow>
         (\<exists>f. func m = Some f \<and> call self knd nm kw w = f [] kw w)"
    using hit Resource_init_callable by blast
  from miss hit built show ?thesis by blast
qed

theorem call_dispatch_witness:
  "(\<exists>e. call sample_resource ''delete'' None [] w0 = (Inl (Resource_exn e), w0)
        \<and> code e = 400 \<and> cls e = ResourceError)
   \<and> call sample_resource ''create'' None [] w0 = (Inr (PStr ''done''), w0)"
  using call_dispatch [of sample_resource "''delete''" None "[]" w0
      "[Callable done_fn (Some \<lparr>func = None, kind = ''create'', name = None, params = None,
          returns = None, security = None\<rparr>)]"]
    call_dispatch [of sample_resource "''create''" None "[]" w0
      "[Callable done_fn (Some \<lparr>func = None, kind = ''create'', name = None, params = None,
          returns = None, security = None\<rparr>)]"]
  by (simp add: sample_resource_def done_fn_def Resource_init_def register_method_def)

text \<open>
  Claim C9. After construction, every key \<open>(kind, name)\<close> of the methods table holds a
  record whose \<open>kind\<close> and \<open>name\<close> are the key's components, and every registration keeps
  it so: \<open>_register_method\<close> stores, under \<open>(kind, name)\<close>, the record built from that
  same \<open>kind\<close> and \<open>name\<close>.
\<close>

theorem registry_keys_match_records:
  "(Resource_init attrs = Inr r \<longrightarrow> registry_consistent r)
   \<and> (registry_consistent self \<and> register_method self f k n ps rt sec = Inr self'
        \<longrightarrow> registry_consistent self'
            \<and> methods self' (k, n) =
                Some \<lparr>func = Some f, kind = k, name = n, params = ps, returns = rt,
                      security = sec\<rparr>)"
  using Resource_init_consistent register_method_consistent register_method_Inr
  by (metis fun_upd_same)

theorem registry_keys_match_records_witness:
  "registry_consistent sample_resource
   \<and> registry_consistent
       (sample_resource\<lparr>methods := (methods sample_resource)((''action'', Some ''foo'') \<mapsto>
          \<lparr>func = Some done_fn, kind = ''action'', name = Some ''foo'', params = None,
           returns = None, security = None\<rparr>)\<rparr>)"
  using registry_keys_match_records [of
      "[Noncallable, Callable done_fn (Some \<lparr>func = None, kind = ''create'', name = None,
          params = None, returns = None, security = None\<rparr>), Callable failing_fn None]"
      sample_resource sample_resource done_fn "''action''" "Some ''foo''" None None None
      "sample_resource\<lparr>methods := (methods sample_resource)((''action'', Some ''foo'') \<mapsto>
          \<lparr>func = Some done_fn, kind = ''action'', name = Some ''foo'', params = None,
           returns = None, security = None\<rparr>)\<rparr>"]
  by (simp add: Resource_init_def register_method_def sample_resource_def)



section \<open>The decorator: kind and name\<close>




section \<open>The decorator: the wrapper\<close>



text \<open>
  Claim C5, as amended. A declared security policy is recorded in the operation's
  metadata and nowhere else: the decorated function is the same whatever policy is
  declared, and its wrapper pushes the frame, invokes the original function and pops the
  frame, with no security hook in between.
\<close>

theorem security_policy_only_recorded:
  "method_decorator vp vr knd nm ps rt sec (Function fname f)
     = Inr (decorated vp vr (fst (derive knd nm fname)) (snd (derive knd nm fname)) ps rt f,
            Tagged \<lparr>func = None, kind = fst (derive knd nm fname),
                    name = snd (derive knd nm fname), params = ps, returns = rt,
                    security = sec\<rparr>)
   \<and> map_sum id fst (method_decorator vp vr knd nm ps rt sec fn)
       = map_sum id fst (method_decorator vp vr knd nm ps rt None fn)
   \<and> wrapper k n f args kw w
       = (fst (f args kw (push (method_frame k n) w)),
          pop (snd (f args kw (push (method_frame k n) w))))"
proof -
  have a: "method_decorator vp vr knd nm ps rt sec (Function fname f)
     = Inr (decorated vp vr (fst (derive knd nm fname)) (snd (derive knd nm fname)) ps rt f,
            Tagged \<lparr>func = None, kind = fst (derive knd nm fname),
                    name = snd (derive knd nm fname), params = ps, returns = rt,
                    security = sec\<rparr>)"
    by (simp add: method_decorator_def split: prod.splits)
  have b: "map_sum id fst (method_decorator vp vr knd nm ps rt sec fn)
       = map_sum id fst (method_decorator vp vr knd nm ps rt None fn)"
    by (cases fn)
       (auto simp: method_decorator_def register_method_def split: prod.splits)
  from a b wrapper_unfold show ?thesis by blast
qed

text \<open>
  The claim as stated, that every invocation applies the security hook before the
  original function, fails: with the policy \<open>admins only\<close> declared and a collaborator
  that refuses every call, the decorated \<open>create\<close> still runs the function and returns
  its value, where the wrapper of the spec's wording fails with Forbidden.
\<close>

theorem security_hook_not_applied:
  "(case method_decorator accept accept None None (Some ()) (Some ()) (Some ''admins only'')
           (Function ''create'' done_fn) of
      Inl e \<Rightarrow> False
    | Inr (d, decl) \<Rightarrow> d [] [] w0 = (Inr (PStr ''done''), w0))
   \<and> wrapper_as_specified deny (Some ''admins only'') ''create'' None done_fn [] [] w0
       = (Inl (Resource_exn (Forbidden_init (PStr ''admins only''))), w0)"
  by (simp add: method_decorator_def derive_def split_once_def decorated_def s_validate_def
      validate_params_def validate_returns_def accept_def wrapper_def with_context_def
      push_def pop_def done_fn_def w0_def wrapper_as_specified_def deny_def)

section \<open>The decorator: validation\<close>

text \<open>
  Claim C6, as amended. For a decorated operation with a declared returns schema, the
  return value is validated after the original function returns and after the context
  frame pushed for the invocation has been popped: validation is composed around the
  wrapper, so it runs in the world the wrapper leaves, where (for a function that leaves
  the stack as it found it) the stack is the one before the invocation.
\<close>

theorem return_validated_after_pop:
  assumes "validate_params vp ps kw w = Inr kw'"
    and "f args kw' (push (method_frame k n) w) = (Inr v, w')"
  shows "decorated vp vr k n ps (Some sch) f args kw w
     = ((case vr sch v (pop w') of
           Inl msg \<Rightarrow> Inl (Resource_exn (BadRequest_init (PStr msg)))
         | Inr v' \<Rightarrow> Inr v'),
        pop w')
     \<and> (stack w' = method_frame k n # stack w \<longrightarrow> stack (pop w') = stack w)"
  using assms
  by (simp add: decorated_def s_validate_def wrapper_def with_context_def validate_returns_def
      pop_def)

theorem return_validated_after_pop_witness:
  "decorated accept accept ''create'' None (Some ()) (Some ()) kind_reader [] [] w0
     = (Inr (PStr ''create''), w0)
   \<and> stack (pop (push (method_frame ''create'' None) w0)) = stack w0"
  using return_validated_after_pop [of accept "Some ()" "[]" w0 "[]" kind_reader "[]"
      "''create''" None "PStr ''create''" "push (method_frame ''create'' None) w0"
      accept "()"]
  by (simp add: validate_params_def accept_def kind_reader_def push_def
      pop_def w0_def method_frame_def)

text \<open>
  The claim as stated, that the frame is still on the stack while return validation runs,
  fails: started on an empty stack, \<open>kind_reader\<close> finds the frame and returns, and the
  returns validator, which accepts exactly when a frame is on the stack, rejects.
\<close>

theorem returns_validated_without_frame:
  "decorated accept needs_frame ''create'' None (Some ()) (Some ()) kind_reader [] [] w0
     = (Inl (Resource_exn (BadRequest_init (PStr ''no frame on the stack''))), w0)"
  by (simp add: decorated_def s_validate_def wrapper_def with_context_def validate_returns_def
      validate_params_def accept_def needs_frame_def kind_reader_def push_def
      pop_def w0_def method_frame_def)

text \<open>
  Claim C7. For a decorated operation with a declared params schema, an invocation whose
  keyword arguments the validation collaborator rejects fails with a 400-coded error, and
  the original function is never invoked: the outcome and the world after are the same
  for every function, and the world is the one before.
\<close>

theorem rejected_params_never_invoke:
  assumes "vp sch kw w = Inl msg"
  shows "\<exists>e. code e = 400 \<and> cls e = BadRequest
           \<and> (\<forall>f. decorated vp vr k n (Some sch) rt f args kw w = (Inl (Resource_exn e), w))"
  using assms
  by (simp add: decorated_def s_validate_def validate_params_def BadRequest_init_def
      ResourceError_init_def)

theorem rejected_params_never_invoke_witness:
  "\<exists>e. code e = 400 \<and> cls e = BadRequest
        \<and> (\<forall>f. decorated reject accept ''create'' None (Some ()) (Some ()) f [] [] w0
                  = (Inl (Resource_exn e), w0))"
  using rejected_params_never_invoke [of reject "()" "[]" w0 "''rejected''" accept
      "''create''" None "Some ()" "[]"]
  by (simp add: reject_def)

section \<open>The error taxonomy: codes\<close>

text \<open>
  Claim C8. Every concrete error kind carries the detail it was constructed with and a
  fixed code: BadRequest 400, Unauthorized 401 (which also carries the realm), Forbidden
  403, NotFound 404, Conflict 412, PreconditionFailed 412, InternalServerError 500. After
  construction the instance's code is the fixed code of its kind.
\<close>

theorem error_codes_fixed:
  "code (BadRequest_init d) = 400 \<and> detail (BadRequest_init d) = d
   \<and> cls (BadRequest_init d) = BadRequest \<and> realm (BadRequest_init d) = None
   \<and> code (Unauthorized_init rlm d) = 401 \<and> detail (Unauthorized_init rlm d) = d
   \<and> cls (Unauthorized_init rlm d) = Unauthorized \<and> realm (Unauthorized_init rlm d) = Some rlm
   \<and> code (Forbidden_init d) = 403 \<and> detail (Forbidden_init d) = d
   \<and> cls (Forbidden_init d) = Forbidden \<and> realm (Forbidden_init d) = None
   \<and> code (NotFound_init d) = 404 \<and> detail (NotFound_init d) = d
   \<and> cls (NotFound_init d) = NotFound \<and> realm (NotFound_init d) = None
   \<and> code (Conflict_init d) = 412 \<and> detail (Conflict_init d) = d
   \<and> cls (Conflict_init d) = Conflict \<and> realm (Conflict_init d) = None
   \<and> code (PreconditionFailed_init d) = 412 \<and> detail (PreconditionFailed_init d) = d
   \<and> cls (PreconditionFailed_init d) = PreconditionFailed
   \<and> realm (PreconditionFailed_init d) = None
   \<and> code (InternalServerError_init d) = 500 \<and> detail (InternalServerError_init d) = d
   \<and> cls (InternalServerError_init d) = InternalServerError
   \<and> realm (InternalServerError_init d) = None"
  by (simp add: ResourceError_init_def BadRequest_init_def Unauthorized_init_def
      Forbidden_init_def NotFound_init_def Conflict_init_def PreconditionFailed_init_def
      InternalServerError_init_def)

end
